theory Spec2Isabelle
  imports Main "HOL-Library.Sublist" "HOL-Library.Multiset"
begin

section \<open>Values shared by all handlers of main.py\<close>

text \<open>
  An instant is what \<open>datetime.now()\<close> returns, counted in microseconds; the handlers
  only compare instants and add a \<open>timedelta\<close>. Every reading of the clock is an argument
  of the handler that takes it, in the order of the readings in the source. A string is a
  list of characters, one \<open>char\<close> for one code point of the Python \<open>str\<close>.
\<close>

type_synonym datetime = nat

definition timedelta_minutes :: "nat \<Rightarrow> nat" where
  "timedelta_minutes m = m * 60 * 1000000"

text \<open>
  An exception raised by a handler. \<open>HTTPException\<close> carries the status code and the
  detail; the details are Chinese sentences in the source and are named here by what they
  say. \<open>Upload_failed e\<close> and \<open>Server_error e\<close> are the two details that quote
  \<open>str(e)\<close> of a caught exception \<open>e\<close>. The other constructors are the Python exceptions
  that the handlers can raise without catching them by name.
\<close>

datatype exn =
    HTTPException nat detail
  | KeyError string
  | AttributeError
  | OSError
and detail =
    Session_missing
  | Session_expired
  | Session_bound
  | LoginId_absent
  | LoginId_missing
  | LoginId_expired
  | Login_required
  | Title_blank
  | Content_blank
  | Author_blank
  | Not_an_image
  | Image_too_large
  | Upload_failed exn
  | Server_error exn
  | Suggestion_missing
  | Not_owner_edit
  | Not_owner_delete

text \<open>
  The status a client sees: the code of an \<open>HTTPException\<close>, and 500 for any other
  exception that leaves a handler.
\<close>

fun status_code :: "exn \<Rightarrow> nat" where
  "status_code (HTTPException c d) = c"
| "status_code e = 500"

section \<open>The data model\<close>

text \<open>
  \<open>user_info\<close> is a Python dict from strings to strings, kept as an association list;
  \<open>d[k]\<close> is \<open>map_of d k\<close> where \<open>None\<close> stands for the KeyError, and the dict is falsy
  exactly when it is empty.
\<close>

type_synonym user_info = "(string \<times> string) list"

text \<open>
  A value of the dict \<open>qr_sessions\<close>. The keys \<open>is_confirmed\<close> and \<open>confirmed_at\<close> are
  absent until \<open>confirm_qr_login\<close> adds them, hence the options; \<open>user_info\<close> is \<open>None\<close>
  or a dict.
\<close>

record session =
  created_at :: datetime
  expires_at :: datetime
  is_bound :: bool
  user_info :: "user_info option"
  is_confirmed :: "bool option"
  confirmed_at :: "datetime option"

text \<open>A row of the table \<open>user_sessions\<close>, keyed by its \<open>session_id\<close>.\<close>

record user_session =
  us_user_id :: string
  us_user_name :: string
  us_user_token :: string
  us_created_at :: datetime
  us_expires_at :: datetime
  us_is_active :: nat

text \<open>A row of the table \<open>health_suggestions\<close>.\<close>

record suggestion =
  sugg_id :: nat
  title :: string
  content :: string
  author :: string
  tag :: "string option"
  image_url :: "string option"
  publish_time :: string
  user_id :: "string option"
  user_ip :: "string option"

text \<open>
  The state of the process and of what it writes: the dict \<open>qr_sessions\<close>, the two
  tables, the counter of the AUTOINCREMENT key (the largest identifier ever given out),
  and the files below \<open>BASE_DIR\<close> by their relative path. \<open>disk_ok\<close> says whether writing
  and removing files succeeds; the statements of the data base are taken to succeed.
\<close>

record state =
  qr_sessions :: "string \<rightharpoonup> session"
  user_sessions :: "string \<rightharpoonup> user_session"
  health_suggestions :: "suggestion list"
  sqlite_sequence :: nat
  disk :: "string \<rightharpoonup> string"
  disk_ok :: bool

text \<open>The bodies of the requests, the part of a \<open>Request\<close> that is read, an uploaded file.\<close>

record qr_login_request =
  req_session_id :: string
  req_user_id :: string
  req_user_name :: string
  req_user_token :: string

record qr_confirm_request =
  req_uuid :: string
  req_doctor_id :: string

record request =
  x_session_id :: "string option"
  client_host :: "string option"

record upload_file =
  content_type :: "string option"
  file_size :: "nat option"
  filename :: "string option"
  file_data :: string

record qr_login_response =
  resp_session_id :: string
  qr_code_data :: string
  qr_code_image_url :: string
  resp_expires_at :: datetime

text \<open>What a handler returns when it does not raise.\<close>

datatype response =
    Generated qr_login_response
  | Page_error
  | Page_expired
  | Page_confirmed string
  | Check_success string string datetime
  | Check_waiting string
  | Bind_success
  | Confirm_success string string
  | Status_confirmed string datetime
  | Status_waiting string
  | One_suggestion suggestion
  | Suggestions "suggestion list"
  | Deleted
  | Uploaded string string

type_synonym outcome = "(exn + response) \<times> state"

section \<open>The QR login handlers\<close>

text \<open>
  \<open>generate_qr_code\<close>: \<open>session_id\<close> is the fresh \<open>uuid4\<close>, \<open>now\<close> and \<open>now'\<close> the two
  readings of the clock, \<open>png\<close> the picture the qrcode library renders (\<open>None\<close> when it
  raises). A failure of the rendering or of the saving leaves the picture's URL empty.
\<close>

definition generate_qr_code ::
  "string \<Rightarrow> datetime \<Rightarrow> datetime \<Rightarrow> string option \<Rightarrow> state \<Rightarrow> response \<times> state" where
  "generate_qr_code session_id now now' png st =
    (let expires = now + timedelta_minutes 5;
         st1 = st\<lparr>qr_sessions := (qr_sessions st)(session_id \<mapsto>
                 \<lparr>created_at = now', expires_at = expires, is_bound = False,
                  user_info = None, is_confirmed = None, confirmed_at = None\<rparr>)\<rparr>;
         data = ''http://16.171.135.255/confirm-login?loginId='' @ session_id;
         qr_filename = ''qr_code_'' @ session_id @ ''.png'';
         saved = (case png of None \<Rightarrow> None
                  | Some img \<Rightarrow> if disk_ok st1 then Some img else None);
         st2 = (case saved of None \<Rightarrow> st1
                | Some img \<Rightarrow> st1\<lparr>disk := (disk st1)(''qr_codes/'' @ qr_filename \<mapsto> img)\<rparr>);
         url = (case saved of None \<Rightarrow> [] | Some img \<Rightarrow> ''/qr_codes/'' @ qr_filename)
     in (Generated \<lparr>resp_session_id = session_id, qr_code_data = data,
                     qr_code_image_url = url, resp_expires_at = expires\<rparr>, st2))"

text \<open>\<open>del qr_sessions[k]\<close>.\<close>

definition del_session :: "string \<Rightarrow> state \<Rightarrow> state" where
  "del_session k st = st\<lparr>qr_sessions := (qr_sessions st)(k := None)\<rparr>"

text \<open>\<open>qr_sessions[k] = s\<close>, the way a handler's writes to \<open>session\<close> reach the dict.\<close>

definition put_session :: "string \<Rightarrow> session \<Rightarrow> state \<Rightarrow> state" where
  "put_session k s st = st\<lparr>qr_sessions := (qr_sessions st)(k \<mapsto> s)\<rparr>"

text \<open>
  \<open>confirm_login_page\<close>, the page the QR code's URL opens. It never raises. The two
  Chinese characters that start the synthesized user name are written \<open>doctor\<close>.
\<close>

definition confirm_login_page :: "datetime \<Rightarrow> string \<Rightarrow> state \<Rightarrow> response \<times> state" where
  "confirm_login_page now loginId st =
    (case qr_sessions st loginId of
       None \<Rightarrow> (Page_error, st)
     | Some s \<Rightarrow>
         if now > expires_at s then (Page_expired, del_session loginId st)
         else (Page_confirmed loginId,
               put_session loginId
                 (s\<lparr>is_bound := True,
                    user_info := Some [(''user_id'', ''user_'' @ take 8 loginId),
                                       (''user_name'', ''doctor_'' @ take 8 loginId),
                                       (''user_token'', ''token_'' @ loginId)]\<rparr>) st))"

text \<open>
  \<open>check_qr_login\<close>; \<open>now'\<close> is the reading used when the session has no \<open>confirmed_at\<close>.
  \<open>session.get("user_info", {}).get(...)\<close> raises AttributeError on a \<open>user_info\<close> that
  is \<open>None\<close>, the key being present in every session.
\<close>

definition check_qr_login :: "datetime \<Rightarrow> datetime \<Rightarrow> string \<Rightarrow> state \<Rightarrow> outcome" where
  "check_qr_login now now' uuid st =
    (case qr_sessions st uuid of
       None \<Rightarrow> (Inl (HTTPException 404 Session_missing), st)
     | Some s \<Rightarrow>
         if now > expires_at s
         then (Inl (HTTPException 410 Session_expired), del_session uuid st)
         else if (case is_confirmed s of None \<Rightarrow> False | Some b \<Rightarrow> b)
         then (case user_info s of
                 None \<Rightarrow> (Inl AttributeError, st)
               | Some ui \<Rightarrow>
                   (Inr (Check_success uuid
                          (case map_of ui ''doctor_id'' of None \<Rightarrow> [] | Some d \<Rightarrow> d)
                          (case confirmed_at s of None \<Rightarrow> now' | Some t \<Rightarrow> t)), st))
         else (Inr (Check_waiting uuid), st))"

text \<open>
  \<open>bind_qr_login\<close>; \<open>now'\<close> is the reading stored as \<open>created_at\<close> of the row that
  \<open>INSERT OR REPLACE\<close> writes.
\<close>

definition bind_qr_login :: "datetime \<Rightarrow> datetime \<Rightarrow> qr_login_request \<Rightarrow> state \<Rightarrow> outcome" where
  "bind_qr_login now now' req st =
    (let session_id = req_session_id req in
     case qr_sessions st session_id of
       None \<Rightarrow> (Inl (HTTPException 404 Session_missing), st)
     | Some s \<Rightarrow>
         if now > expires_at s
         then (Inl (HTTPException 410 Session_expired), del_session session_id st)
         else if is_bound s then (Inl (HTTPException 400 Session_bound), st)
         else
           (let info = [(''user_id'', req_user_id req),
                        (''user_name'', req_user_name req),
                        (''user_token'', req_user_token req)];
                st1 = put_session session_id (s\<lparr>is_bound := True, user_info := Some info\<rparr>) st;
                st2 = st1\<lparr>user_sessions := (user_sessions st1)(session_id \<mapsto>
                        \<lparr>us_user_id = req_user_id req, us_user_name = req_user_name req,
                         us_user_token = req_user_token req, us_created_at = now',
                         us_expires_at = expires_at s, us_is_active = 1\<rparr>)\<rparr>
            in (Inr Bind_success, st2)))"

text \<open>
  \<open>confirm_qr_login\<close>; \<open>t_confirmed\<close> is the reading stored as \<open>confirmed_at\<close> and
  \<open>login_time\<close> the \<open>isoformat()\<close> of the reading after it.
\<close>

definition confirm_qr_login ::
  "datetime \<Rightarrow> datetime \<Rightarrow> string \<Rightarrow> qr_confirm_request \<Rightarrow> state \<Rightarrow> outcome" where
  "confirm_qr_login now t_confirmed login_time req st =
    (let session_id = req_uuid req; doctor_id = req_doctor_id req in
     case qr_sessions st session_id of
       None \<Rightarrow> (Inl (HTTPException 404 Session_missing), st)
     | Some s \<Rightarrow>
         if now > expires_at s
         then (Inl (HTTPException 410 Session_expired), del_session session_id st)
         else (Inr (Confirm_success session_id doctor_id),
               put_session session_id
                 (s\<lparr>is_confirmed := Some True, confirmed_at := Some t_confirmed,
                    is_bound := True,
                    user_info := Some [(''doctor_id'', doctor_id),
                                       (''login_time'', login_time)]\<rparr>) st))"

text \<open>
  \<open>get_qr_login_status\<close>; the query parameter \<open>loginId\<close> defaults to \<open>None\<close>, and
  \<open>not loginId\<close> holds for \<open>None\<close> and for the empty string.
\<close>

definition get_qr_login_status ::
  "datetime \<Rightarrow> datetime \<Rightarrow> string option \<Rightarrow> state \<Rightarrow> outcome" where
  "get_qr_login_status now now' loginId st =
    (case loginId of
       None \<Rightarrow> (Inl (HTTPException 400 LoginId_absent), st)
     | Some k \<Rightarrow>
         if k = [] then (Inl (HTTPException 400 LoginId_absent), st)
         else
           (case qr_sessions st k of
              None \<Rightarrow> (Inl (HTTPException 404 LoginId_missing), st)
            | Some s \<Rightarrow>
                if now > expires_at s
                then (Inl (HTTPException 410 LoginId_expired), del_session k st)
                else if (case is_confirmed s of None \<Rightarrow> False | Some b \<Rightarrow> b)
                then (Inr (Status_confirmed k
                            (case confirmed_at s of None \<Rightarrow> now' | Some t \<Rightarrow> t)), st)
                else (Inr (Status_waiting k), st)))"

text \<open>
  \<open>get_user_from_session\<close> and \<open>get_user_from_request\<close>: the identity of the caller, or
  \<open>None\<close>. Neither reads the clock.
\<close>

definition get_user_from_session :: "string \<Rightarrow> state \<Rightarrow> user_info option" where
  "get_user_from_session session_id st =
    (case qr_sessions st session_id of
       None \<Rightarrow> None
     | Some s \<Rightarrow>
         if \<not> is_bound s \<or> (case user_info s of None \<Rightarrow> True | Some ui \<Rightarrow> ui = [])
         then None
         else user_info s)"

definition get_user_from_request :: "request \<Rightarrow> state \<Rightarrow> user_info option" where
  "get_user_from_request req st =
    (case x_session_id req of
       None \<Rightarrow> None
     | Some session_id \<Rightarrow>
         if session_id = [] then None else get_user_from_session session_id st)"

section \<open>Library functions the suggestion handlers call\<close>

text \<open>\<open>str.isspace\<close> on the code points below 256, and \<open>str.strip()\<close>.\<close>

definition isspace :: "char \<Rightarrow> bool" where
  "isspace c = ((of_char c :: nat) \<in> set [9, 10, 11, 12, 13, 28, 29, 30, 31, 32, 133, 160])"

definition strip :: "string \<Rightarrow> string" where
  "strip s = rev (dropWhile isspace (rev (dropWhile isspace s)))"

text \<open>\<open>s.startswith(p)\<close> and \<open>s.lstrip('/')\<close>.\<close>

definition startswith :: "string \<Rightarrow> string \<Rightarrow> bool" where
  "startswith s p = (take (length p) s = p)"

definition lstrip_slash :: "string \<Rightarrow> string" where
  "lstrip_slash s = dropWhile (\<lambda>c. c = CHR ''/'') s"

text \<open>
  \<open>os.path.splitext(p)[1]\<close> on POSIX: the extension starts at the last dot of the part
  after the last slash, provided a character other than a dot stands before that dot.
\<close>

definition splitext_ext :: "string \<Rightarrow> string" where
  "splitext_ext p =
    (let base = takeWhile (\<lambda>c. c \<noteq> CHR ''/'') (rev p);
         after = takeWhile (\<lambda>c. c \<noteq> CHR ''.'') base
     in case dropWhile (\<lambda>c. c \<noteq> CHR ''.'') base of
          [] \<Rightarrow> []
        | d # stem \<Rightarrow> if list_ex (\<lambda>c. c \<noteq> CHR ''.'') stem then d # rev after else [])"

text \<open>\<open>str(n)\<close> of a non-negative integer.\<close>

fun str_nat :: "nat \<Rightarrow> string" where
  "str_nat n =
    (if n < 10 then [''0123456789'' ! n]
     else str_nat (n div 10) @ [''0123456789'' ! (n mod 10)])"

declare str_nat.simps [simp del]

text \<open>
  The \<open>LIKE\<close> operator of SQLite, pattern first: \<open>%\<close> stands for any run of characters,
  \<open>_\<close> for any one character, and any other character for itself, the letters A to Z of
  ASCII taken as equal to a to z. No escape character is set by the statements of main.py.
\<close>

definition lower :: "char \<Rightarrow> char" where
  "lower c =
    (case map_of (zip ''ABCDEFGHIJKLMNOPQRSTUVWXYZ'' ''abcdefghijklmnopqrstuvwxyz'') c of
       None \<Rightarrow> c
     | Some l \<Rightarrow> l)"

fun like :: "string \<Rightarrow> string \<Rightarrow> bool" where
  "like [] [] = True"
| "like [] (c # s) = False"
| "like (p # ps) [] = (p = CHR ''%'' \<and> like ps [])"
| "like (p # ps) (c # s) =
    (if p = CHR ''%'' then like ps (c # s) \<or> like (p # ps) s
     else (p = CHR ''_'' \<or> lower p = lower c) \<and> like ps s)"

text \<open>\<open>ORDER BY id DESC\<close>, the key \<open>id\<close> being unique.\<close>

definition order_by_id_desc :: "suggestion list \<Rightarrow> suggestion list" where
  "order_by_id_desc rows = rev (sort_key sugg_id rows)"

text \<open>\<open>SELECT ... WHERE id = ?\<close> followed by \<open>fetchone()\<close>.\<close>

definition select_by_id :: "nat \<Rightarrow> state \<Rightarrow> suggestion option" where
  "select_by_id i st = find (\<lambda>r. sugg_id r = i) (health_suggestions st)"

text \<open>\<open>request.client.host if request.client else "unknown"\<close>.\<close>

definition client_ip :: "request \<Rightarrow> string" where
  "client_ip req = (case client_host req of None \<Rightarrow> ''unknown'' | Some h \<Rightarrow> h)"

text \<open>
  Writing an uploaded file below \<open>uploads/\<close>: \<open>None\<close> when \<open>open\<close> or the copy raises, else the new
  state.
\<close>

definition save_upload :: "string \<Rightarrow> upload_file \<Rightarrow> state \<Rightarrow> state option" where
  "save_upload name upload st =
    (if disk_ok st then Some (st\<lparr>disk := (disk st)(''uploads/'' @ name \<mapsto> file_data upload)\<rparr>)
     else None)"

text \<open>
  The release of an old picture in update and delete: \<open>os.remove\<close> of
  \<open>BASE_DIR / image_url.lstrip('/')\<close> when that file exists, any exception passed over.
\<close>

definition remove_image :: "string option \<Rightarrow> state \<Rightarrow> state" where
  "remove_image url st =
    (case url of
       None \<Rightarrow> st
     | Some u \<Rightarrow>
         if u = [] then st
         else (let path = lstrip_slash u in
               if disk st path \<noteq> None \<and> disk_ok st
               then st\<lparr>disk := (disk st)(path := None)\<rparr> else st))"

section \<open>The suggestion handlers\<close>

definition get_health_suggestions :: "state \<Rightarrow> outcome" where
  "get_health_suggestions st = (Inr (Suggestions (order_by_id_desc (health_suggestions st))), st)"

definition get_health_suggestion :: "nat \<Rightarrow> state \<Rightarrow> outcome" where
  "get_health_suggestion suggestion_id st =
    (case select_by_id suggestion_id st of
       None \<Rightarrow> (Inl (HTTPException 404 Suggestion_missing), st)
     | Some row \<Rightarrow> (Inr (One_suggestion row), st))"

text \<open>
  The body of the \<open>try\<close> of \<open>create_health_suggestion\<close>. \<open>timestamp\<close> and \<open>publish_time\<close>
  are the two \<open>strftime\<close> strings of the clock. The new identifier is one more than the
  largest ever given out.
\<close>

definition create_body ::
  "string \<Rightarrow> string \<Rightarrow> request \<Rightarrow> string \<Rightarrow> string \<Rightarrow> string \<Rightarrow> string option \<Rightarrow>
   upload_file option \<Rightarrow> state \<Rightarrow> outcome" where
  "create_body timestamp publish request ttl cnt auth tg upload st =
    (case get_user_from_request request st of
       None \<Rightarrow> (Inl (HTTPException 401 Login_required), st)
     | Some info \<Rightarrow>
       if info = [] then (Inl (HTTPException 401 Login_required), st)
       else if ttl = [] \<or> strip ttl = [] then (Inl (HTTPException 400 Title_blank), st)
       else if cnt = [] \<or> strip cnt = [] then (Inl (HTTPException 400 Content_blank), st)
       else if auth = [] \<or> strip auth = [] then (Inl (HTTPException 400 Author_blank), st)
       else
         (let saved =
            (case upload of
               None \<Rightarrow> Inr (None, st)
             | Some img \<Rightarrow>
                 (case content_type img of
                    None \<Rightarrow> Inl AttributeError
                  | Some ct \<Rightarrow>
                      if \<not> startswith ct ''image/'' then Inl (HTTPException 400 Not_an_image)
                      else if (case file_size img of None \<Rightarrow> False
                               | Some n \<Rightarrow> n \<noteq> 0 \<and> n > 2 * 1024 * 1024)
                      then Inl (HTTPException 413 Image_too_large)
                      else
                        (let file_extension =
                               (case filename img of None \<Rightarrow> ''.jpg''
                                | Some f \<Rightarrow> if f = [] then ''.jpg'' else splitext_ext f);
                             name = ''health_suggestion_'' @ timestamp @ file_extension
                         in case save_upload name img st of
                              None \<Rightarrow> Inl (HTTPException 500 (Upload_failed OSError))
                            | Some st1 \<Rightarrow> Inr (Some (''/uploads/'' @ name), st1))))
          in case saved of
               Inl e \<Rightarrow> (Inl e, st)
             | Inr (url, st1) \<Rightarrow>
                 (case map_of info ''user_id'' of
                    None \<Rightarrow> (Inl (KeyError ''user_id''), st1)
                  | Some uid \<Rightarrow>
                      (let suggestion_id = sqlite_sequence st1 + 1;
                           row = \<lparr>sugg_id = suggestion_id, title = strip ttl,
                                  content = strip cnt, author = strip auth,
                                  tag = (case tg of None \<Rightarrow> None
                                         | Some t \<Rightarrow> if t = [] then None else Some (strip t)),
                                  image_url = url, publish_time = publish,
                                  user_id = Some uid, user_ip = Some (client_ip request)\<rparr>
                       in (Inr (One_suggestion row),
                           st1\<lparr>health_suggestions := health_suggestions st1 @ [row],
                               sqlite_sequence := suggestion_id\<rparr>)))))"

text \<open>
  \<open>create_health_suggestion\<close>: an \<open>HTTPException\<close> of the body is raised again as it is,
  any other exception becomes a 500.
\<close>

definition create_health_suggestion ::
  "string \<Rightarrow> string \<Rightarrow> request \<Rightarrow> string \<Rightarrow> string \<Rightarrow> string \<Rightarrow> string option \<Rightarrow>
   upload_file option \<Rightarrow> state \<Rightarrow> outcome" where
  "create_health_suggestion timestamp publish request ttl cnt auth tg upload st =
    (case create_body timestamp publish request ttl cnt auth tg upload st of
       (Inl (HTTPException c d), st1) \<Rightarrow> (Inl (HTTPException c d), st1)
     | (Inl e, st1) \<Rightarrow> (Inl (HTTPException 500 (Server_error e)), st1)
     | (Inr r, st1) \<Rightarrow> (Inr r, st1))"

text \<open>
  \<open>update_health_suggestion\<close>. The \<open>UPDATE\<close> statement sets title, content, author, tag,
  image_url and publish_time of the row with the given identifier, the values as they
  were sent.
\<close>

definition update_health_suggestion ::
  "string \<Rightarrow> string \<Rightarrow> nat \<Rightarrow> request \<Rightarrow> string \<Rightarrow> string \<Rightarrow> string \<Rightarrow> string option \<Rightarrow>
   upload_file option \<Rightarrow> state \<Rightarrow> outcome" where
  "update_health_suggestion timestamp publish suggestion_id request ttl cnt auth tg upload st =
    (case get_user_from_request request st of
       None \<Rightarrow> (Inl (HTTPException 401 Login_required), st)
     | Some info \<Rightarrow>
       if info = [] then (Inl (HTTPException 401 Login_required), st)
       else
         (case select_by_id suggestion_id st of
            None \<Rightarrow> (Inl (HTTPException 404 Suggestion_missing), st)
          | Some row \<Rightarrow>
              (case map_of info ''user_id'' of
                 None \<Rightarrow> (Inl (KeyError ''user_id''), st)
               | Some uid \<Rightarrow>
                   if Some uid \<noteq> user_id row then (Inl (HTTPException 403 Not_owner_edit), st)
                   else
                     (let saved =
                        (case upload of
                           None \<Rightarrow> Inr (image_url row, st)
                         | Some img \<Rightarrow>
                             (let st1 = remove_image (image_url row) st;
                                  file_extension =
                                    (case filename img of None \<Rightarrow> ''.jpg''
                                     | Some f \<Rightarrow> if f = [] then ''.jpg'' else splitext_ext f);
                                  name = ''health_suggestion_'' @ timestamp @ ''_'' @
                                         str_nat suggestion_id @ file_extension
                              in case save_upload name img st1 of
                                   None \<Rightarrow> Inl (HTTPException 500 (Upload_failed OSError), st1)
                                 | Some st2 \<Rightarrow> Inr (Some (''/uploads/'' @ name), st2)))
                      in case saved of
                           Inl (e, st1) \<Rightarrow> (Inl e, st1)
                         | Inr (url, st1) \<Rightarrow>
                             (Inr (One_suggestion
                                    \<lparr>sugg_id = suggestion_id, title = ttl, content = cnt,
                                     author = auth, tag = tg, image_url = url,
                                     publish_time = publish, user_id = Some uid,
                                     user_ip = Some (client_ip request)\<rparr>),
                              st1\<lparr>health_suggestions :=
                                    map (\<lambda>r. if sugg_id r = suggestion_id
                                              then r\<lparr>title := ttl, content := cnt, author := auth,
                                                     tag := tg, image_url := url,
                                                     publish_time := publish\<rparr>
                                              else r) (health_suggestions st1)\<rparr>)))))"

text \<open>\<open>delete_health_suggestion\<close>.\<close>

definition delete_health_suggestion :: "nat \<Rightarrow> request \<Rightarrow> state \<Rightarrow> outcome" where
  "delete_health_suggestion suggestion_id request st =
    (case get_user_from_request request st of
       None \<Rightarrow> (Inl (HTTPException 401 Login_required), st)
     | Some info \<Rightarrow>
       if info = [] then (Inl (HTTPException 401 Login_required), st)
       else
         (case select_by_id suggestion_id st of
            None \<Rightarrow> (Inl (HTTPException 404 Suggestion_missing), st)
          | Some row \<Rightarrow>
              (case map_of info ''user_id'' of
                 None \<Rightarrow> (Inl (KeyError ''user_id''), st)
               | Some uid \<Rightarrow>
                   if Some uid \<noteq> user_id row then (Inl (HTTPException 403 Not_owner_delete), st)
                   else
                     (let st1 = remove_image (image_url row) st
                      in (Inr Deleted,
                          st1\<lparr>health_suggestions :=
                                filter (\<lambda>r. sugg_id r \<noteq> suggestion_id)
                                  (health_suggestions st1)\<rparr>)))))"

text \<open>
  \<open>search_health_suggestions\<close>: the rows with \<open>title LIKE ? OR content LIKE ? OR author
  LIKE ? OR tag LIKE ?\<close>, each parameter being \<open>%keyword%\<close>. A \<open>tag\<close> that is NULL makes its
  \<open>LIKE\<close> NULL, which selects nothing.
\<close>

definition like_keyword :: "string \<Rightarrow> string \<Rightarrow> bool" where
  "like_keyword keyword s = like (CHR ''%'' # keyword @ ''%'') s"

definition search_where :: "string \<Rightarrow> suggestion \<Rightarrow> bool" where
  "search_where keyword r =
    (like_keyword keyword (title r) \<or> like_keyword keyword (content r) \<or>
     like_keyword keyword (author r) \<or>
     (case tag r of None \<Rightarrow> False | Some t \<Rightarrow> like_keyword keyword t))"

definition search_health_suggestions :: "string \<Rightarrow> state \<Rightarrow> outcome" where
  "search_health_suggestions keyword st =
    (Inr (Suggestions (order_by_id_desc (filter (search_where keyword) (health_suggestions st)))),
     st)"

text \<open>
  \<open>upload_image\<close>: the body of its \<open>try\<close>, and the handler, whose \<open>except Exception\<close>
  catches whatever the body raises, \<open>HTTPException\<close> being a subclass of \<open>Exception\<close>.
\<close>

definition upload_body :: "string \<Rightarrow> upload_file \<Rightarrow> state \<Rightarrow> outcome" where
  "upload_body timestamp upload st =
    (case content_type upload of
       None \<Rightarrow> (Inl AttributeError, st)
     | Some ct \<Rightarrow>
         if \<not> startswith ct ''image/'' then (Inl (HTTPException 400 Not_an_image), st)
         else if (case file_size upload of None \<Rightarrow> False
                  | Some n \<Rightarrow> n \<noteq> 0 \<and> n > 10 * 1024 * 1024)
         then (Inl (HTTPException 413 Image_too_large), st)
         else
           (let file_extension =
                  (case filename upload of None \<Rightarrow> ''.jpg''
                   | Some f \<Rightarrow> if f = [] then ''.jpg'' else splitext_ext f);
                name = ''upload_'' @ timestamp @ file_extension
            in case save_upload name upload st of
                 None \<Rightarrow> (Inl OSError, st)
               | Some st1 \<Rightarrow> (Inr (Uploaded (''/uploads/'' @ name) name), st1)))"

definition upload_image :: "string \<Rightarrow> upload_file \<Rightarrow> state \<Rightarrow> outcome" where
  "upload_image timestamp upload st =
    (case upload_body timestamp upload st of
       (Inl e, st1) \<Rightarrow> (Inl (HTTPException 500 (Upload_failed e)), st1)
     | (Inr r, st1) \<Rightarrow> (Inr r, st1))"

section \<open>The states the process can be in\<close>

text \<open>
  At start-up \<open>qr_sessions\<close> is the empty dict, whatever the data base file and the
  directories hold. From there every request runs one handler.
\<close>

inductive reachable :: "state \<Rightarrow> bool" where
  start: "qr_sessions st = Map.empty \<Longrightarrow> reachable st"
| generate: "reachable st \<Longrightarrow> reachable (snd (generate_qr_code k now now' png st))"
| page: "reachable st \<Longrightarrow> reachable (snd (confirm_login_page now k st))"
| check: "reachable st \<Longrightarrow> reachable (snd (check_qr_login now now' k st))"
| bind: "reachable st \<Longrightarrow> reachable (snd (bind_qr_login now now' breq st))"
| confirm: "reachable st \<Longrightarrow> reachable (snd (confirm_qr_login now tc lt creq st))"
| status: "reachable st \<Longrightarrow> reachable (snd (get_qr_login_status now now' q st))"
| list_all: "reachable st \<Longrightarrow> reachable (snd (get_health_suggestions st))"
| get_one: "reachable st \<Longrightarrow> reachable (snd (get_health_suggestion i st))"
| create:
    "reachable st \<Longrightarrow>
     reachable (snd (create_health_suggestion ts pt rq ttl cnt auth tg upl st))"
| update:
    "reachable st \<Longrightarrow>
     reachable (snd (update_health_suggestion ts pt i rq ttl cnt auth tg upl st))"
| delete: "reachable st \<Longrightarrow> reachable (snd (delete_health_suggestion i rq st))"
| search: "reachable st \<Longrightarrow> reachable (snd (search_health_suggestions kw st))"
| upload: "reachable st \<Longrightarrow> reachable (snd (upload_image ts upl st))"

text \<open>
  What every reachable state satisfies: a session whose \<open>is_confirmed\<close> is true is bound
  and carries an identity and a confirmation instant.
\<close>

definition session_inv :: "state \<Rightarrow> bool" where
  "session_inv st \<longleftrightarrow>
    (\<forall>k s. qr_sessions st k = Some s \<longrightarrow> is_confirmed s = Some True \<longrightarrow>
       is_bound s \<and> user_info s \<noteq> None \<and> confirmed_at s \<noteq> None)"

section \<open>Search as the specification words it\<close>



section \<open>Concrete inputs for the examples\<close>

definition fresh_state :: state where
  "fresh_state =
    \<lparr>qr_sessions = Map.empty, user_sessions = Map.empty, health_suggestions = [],
     sqlite_sequence = 0, disk = Map.empty, disk_ok = True\<rparr>"

text \<open>A session generated at instant 0; it expires after instant 300000000.\<close>

definition pending_state :: state where
  "pending_state = snd (generate_qr_code ''s1'' 0 1 None fresh_state)"

definition pending_session :: session where
  "pending_session =
    \<lparr>created_at = 1, expires_at = 300000000, is_bound = False, user_info = None,
     is_confirmed = None, confirmed_at = None\<rparr>"

definition alice :: qr_login_request where
  "alice = \<lparr>req_session_id = ''s1'', req_user_id = ''alice'', req_user_name = ''Alice'',
            req_user_token = ''tok-a''\<rparr>"

definition bob :: qr_login_request where
  "bob = \<lparr>req_session_id = ''s1'', req_user_id = ''bob'', req_user_name = ''Bob'',
          req_user_token = ''tok-b''\<rparr>"

text \<open>The session bound to alice at instant 10.\<close>

definition bound_state :: state where
  "bound_state = snd (bind_qr_login 10 11 alice pending_state)"

text \<open>Two confirmations of the scanning device, for two doctors.\<close>

definition dr_a :: qr_confirm_request where
  "dr_a = \<lparr>req_uuid = ''s1'', req_doctor_id = ''dr-a''\<rparr>"

definition dr_b :: qr_confirm_request where
  "dr_b = \<lparr>req_uuid = ''s1'', req_doctor_id = ''dr-b''\<rparr>"

text \<open>The rows of a small table.\<close>

definition row_tea :: suggestion where
  "row_tea = \<lparr>sugg_id = 1, title = ''Tea'', content = ''Sip'', author = ''Wu'',
      tag = None, image_url = None, publish_time = ''2025-01-01 10:00:00'',
      user_id = Some ''alice'', user_ip = Some ''10.0.0.1''\<rparr>"

definition row_nap :: suggestion where
  "row_nap = \<lparr>sugg_id = 2, title = ''Nap'', content = ''Rest'', author = ''Li'',
      tag = Some ''tea'', image_url = Some ''/uploads/a.png'',
      publish_time = ''2025-01-02 10:00:00'',
      user_id = Some ''bob'', user_ip = Some ''10.0.0.2''\<rparr>"

definition row_run :: suggestion where
  "row_run = \<lparr>sugg_id = 3, title = ''Run'', content = ''Jog'', author = ''Wu'',
      tag = Some ''fit'', image_url = None, publish_time = ''2025-01-03 10:00:00'',
      user_id = Some ''alice'', user_ip = Some ''10.0.0.1''\<rparr>"

definition advice_rows :: "suggestion list" where
  "advice_rows = [row_tea, row_nap, row_run]"

text \<open>Three suggestions, two of alice and one of bob, in the state where alice is logged in.\<close>

definition advice_state :: state where
  "advice_state = bound_state\<lparr>health_suggestions := advice_rows, sqlite_sequence := 3,
     disk := [''uploads/a.png'' \<mapsto> ''PNG'']\<rparr>"

definition alice_request :: request where
  "alice_request = \<lparr>x_session_id = Some ''s1'', client_host = Some ''10.0.0.1''\<rparr>"

section \<open>The session life cycle\<close>

lemmas fixture_defs = fresh_state_def pending_state_def bound_state_def alice_def bob_def
  generate_qr_code_def timedelta_minutes_def put_session_def del_session_def

lemma pending_lookup: "qr_sessions pending_state ''s1'' = Some pending_session"
  by (simp add: fixture_defs pending_session_def)

text \<open>
  C1. The claim: the resolver returns no identity for a session that is absent, past its
  deadline or not bound, also when the session was bound before it expired. The code
  does not do that: \<open>get_user_from_session\<close> never reads the clock, while every handler
  of the session checks the deadline first. The session \<open>s1\<close> is generated at instant 0,
  so its deadline is 300000000, and bound to alice at instant 10. A poll at instant
  300000001 reports it expired, yet the resolver, at whatever instant, returns alice.
\<close>

theorem resolver_ignores_expiry:
  "map_option expires_at (qr_sessions bound_state ''s1'') = Some 300000000 \<and>
   get_user_from_session ''s1'' bound_state =
     Some [(''user_id'', ''alice''), (''user_name'', ''Alice''), (''user_token'', ''tok-a'')] \<and>
   get_user_from_request \<lparr>x_session_id = Some ''s1'', client_host = None\<rparr> bound_state =
     Some [(''user_id'', ''alice''), (''user_name'', ''Alice''), (''user_token'', ''tok-a'')] \<and>
   fst (check_qr_login 300000001 300000002 ''s1'' bound_state) =
     Inl (HTTPException 410 Session_expired)"
  by (simp add: fixture_defs bind_qr_login_def get_user_from_session_def
      get_user_from_request_def check_qr_login_def Let_def)

theorem resolver_ignores_expiry_witness:
  "get_user_from_session ''s1'' bound_state \<noteq> None \<and>
   status_code (HTTPException 410 Session_expired) = 410"
  using resolver_ignores_expiry by simp

text \<open>
  C3, as the code has it. A session is expired when \<open>now > expires_at\<close>; at the deadline
  itself it is still served. Once the deadline has strictly passed, the next poll (check
  or status, the latter with the non-empty identifier every session has), bind or
  confirm answers 410 and removes the session from \<open>qr_sessions\<close>, changing nothing else;
  on the state after that removal each of the four answers 404, at any instant.
\<close>

theorem expired_session_evicted:
  assumes "qr_sessions st k = Some s" and "now > expires_at s" and "k \<noteq> []"
    and "req_session_id breq = k" and "req_uuid creq = k"
  shows "check_qr_login now t k st =
           (Inl (HTTPException 410 Session_expired), del_session k st) \<and>
         get_qr_login_status now t (Some k) st =
           (Inl (HTTPException 410 LoginId_expired), del_session k st) \<and>
         bind_qr_login now t breq st =
           (Inl (HTTPException 410 Session_expired), del_session k st) \<and>
         confirm_qr_login now t lt creq st =
           (Inl (HTTPException 410 Session_expired), del_session k st) \<and>
         qr_sessions (del_session k st) k = None \<and>
         check_qr_login now2 t2 k (del_session k st) =
           (Inl (HTTPException 404 Session_missing), del_session k st) \<and>
         get_qr_login_status now2 t2 (Some k) (del_session k st) =
           (Inl (HTTPException 404 LoginId_missing), del_session k st) \<and>
         bind_qr_login now2 t2 breq (del_session k st) =
           (Inl (HTTPException 404 Session_missing), del_session k st) \<and>
         confirm_qr_login now2 t2 lt2 creq (del_session k st) =
           (Inl (HTTPException 404 Session_missing), del_session k st)"
  using assms
  by (simp add: check_qr_login_def get_qr_login_status_def bind_qr_login_def
      confirm_qr_login_def del_session_def Let_def)

theorem expired_session_evicted_witness:
  "qr_sessions pending_state ''s1'' = Some pending_session \<and>
   300000001 > expires_at pending_session \<and>
   fst (check_qr_login 300000001 300000002 ''s1'' pending_state) =
     Inl (HTTPException 410 Session_expired) \<and>
   qr_sessions (snd (check_qr_login 300000001 300000002 ''s1'' pending_state)) ''s1'' = None \<and>
   fst (bind_qr_login 300000005 300000006 alice
         (snd (check_qr_login 300000001 300000002 ''s1'' pending_state))) =
     Inl (HTTPException 404 Session_missing)"
  using expired_session_evicted [of pending_state "''s1''" pending_session 300000001 alice dr_a
      300000002 "''T''" 300000005 300000006 "''T''"] pending_lookup
  by (simp add: alice_def dr_a_def pending_session_def)

text \<open>
  C3 as the claim states it, with \<open>now \<ge> expiry\<close>, fails at the deadline: the session
  \<open>s1\<close> has the deadline 300000000, and a poll at that very instant answers waiting and
  leaves the session in the store.
\<close>

theorem expiry_boundary_counterexample:
  "map_option expires_at (qr_sessions pending_state ''s1'') = Some 300000000 \<and>
   (300000000 :: datetime) \<ge> 300000000 \<and>
   check_qr_login 300000000 300000000 ''s1'' pending_state =
     (Inr (Check_waiting ''s1''), pending_state) \<and>
   get_qr_login_status 300000000 300000000 (Some ''s1'') pending_state =
     (Inr (Status_waiting ''s1''), pending_state) \<and>
   qr_sessions pending_state ''s1'' \<noteq> None"
  by (simp add: pending_lookup pending_session_def check_qr_login_def
      get_qr_login_status_def)



text \<open>
  C8. Confirm does not look at what an earlier confirm left: on a session that is in the
  store and not expired at either call, each of two confirms succeeds and writes its own
  doctor, login time and confirmation instant, so after the second the session holds the
  values of the second.
\<close>

theorem confirm_overwrites:
  assumes "qr_sessions st k = Some s"
    and "\<not> now1 > expires_at s" and "\<not> now2 > expires_at s"
    and "req_uuid c1 = k" and "req_uuid c2 = k"
  shows "let st1 = snd (confirm_qr_login now1 tc1 lt1 c1 st);
             st2 = snd (confirm_qr_login now2 tc2 lt2 c2 st1) in
           fst (confirm_qr_login now1 tc1 lt1 c1 st) =
             Inr (Confirm_success k (req_doctor_id c1)) \<and>
           qr_sessions st1 k = Some (s\<lparr>is_confirmed := Some True, confirmed_at := Some tc1,
             is_bound := True,
             user_info := Some [(''doctor_id'', req_doctor_id c1), (''login_time'', lt1)]\<rparr>) \<and>
           fst (confirm_qr_login now2 tc2 lt2 c2 st1) =
             Inr (Confirm_success k (req_doctor_id c2)) \<and>
           qr_sessions st2 k = Some (s\<lparr>is_confirmed := Some True, confirmed_at := Some tc2,
             is_bound := True,
             user_info := Some [(''doctor_id'', req_doctor_id c2), (''login_time'', lt2)]\<rparr>)"
  using assms by (simp add: confirm_qr_login_def put_session_def Let_def)

theorem confirm_overwrites_witness:
  "qr_sessions pending_state ''s1'' = Some pending_session \<and>
   \<not> 10 > expires_at pending_session \<and> \<not> 20 > expires_at pending_session \<and>
   (let st1 = snd (confirm_qr_login 10 11 ''T12'' dr_a pending_state);
        st2 = snd (confirm_qr_login 20 21 ''T22'' dr_b st1) in
    map_option user_info (qr_sessions st1 ''s1'') =
      Some (Some [(''doctor_id'', ''dr-a''), (''login_time'', ''T12'')]) \<and>
    map_option confirmed_at (qr_sessions st1 ''s1'') = Some (Some 11) \<and>
    map_option user_info (qr_sessions st2 ''s1'') =
      Some (Some [(''doctor_id'', ''dr-b''), (''login_time'', ''T22'')]) \<and>
    map_option confirmed_at (qr_sessions st2 ''s1'') = Some (Some 21))"
  using confirm_overwrites [of pending_state "''s1''" pending_session 10 20 dr_a dr_b
      11 "''T12''" 21 "''T22''"] pending_lookup
  by (simp add: dr_a_def dr_b_def pending_session_def Let_def)




subsection \<open>Every handler keeps the invariant of the sessions\<close>

lemma session_inv_same: "qr_sessions st' = qr_sessions st \<Longrightarrow> session_inv st \<Longrightarrow> session_inv st'"
  by (simp add: session_inv_def)

lemma inv_generate: "session_inv st \<Longrightarrow> session_inv (snd (generate_qr_code k now now' png st))"
  by (auto simp: session_inv_def generate_qr_code_def Let_def split: option.splits if_splits)

lemma inv_page: "session_inv st \<Longrightarrow> session_inv (snd (confirm_login_page now k st))"
  by (auto simp: session_inv_def confirm_login_page_def put_session_def del_session_def
      split: option.splits if_splits)

lemma inv_check: "session_inv st \<Longrightarrow> session_inv (snd (check_qr_login now now' k st))"
  by (auto simp: session_inv_def check_qr_login_def del_session_def
      split: option.splits if_splits)

lemma inv_status: "session_inv st \<Longrightarrow> session_inv (snd (get_qr_login_status now now' q st))"
  by (auto simp: session_inv_def get_qr_login_status_def del_session_def
      split: option.splits if_splits)

lemma inv_bind: "session_inv st \<Longrightarrow> session_inv (snd (bind_qr_login now now' r st))"
  by (auto simp: session_inv_def bind_qr_login_def Let_def put_session_def del_session_def
      split: option.splits if_splits)

lemma inv_confirm: "session_inv st \<Longrightarrow> session_inv (snd (confirm_qr_login now tc lt c st))"
  by (auto simp: session_inv_def confirm_qr_login_def Let_def put_session_def del_session_def
      split: option.splits if_splits)

lemma remove_image_sessions: "qr_sessions (remove_image u st) = qr_sessions st"
  by (simp add: remove_image_def Let_def split: option.splits)

lemma create_body_sessions:
  "qr_sessions (snd (create_body ts pt rq ttl cnt auth tg upl st)) = qr_sessions st"
  by (simp add: create_body_def save_upload_def Let_def split: option.splits)

lemma create_snd:
  "snd (create_health_suggestion ts pt rq ttl cnt auth tg upl st) =
   snd (create_body ts pt rq ttl cnt auth tg upl st)"
  by (simp add: create_health_suggestion_def split: prod.splits sum.splits exn.splits)

lemma create_sessions:
  "qr_sessions (snd (create_health_suggestion ts pt rq ttl cnt auth tg upl st)) = qr_sessions st"
  by (simp add: create_snd create_body_sessions)

lemma update_sessions:
  "qr_sessions (snd (update_health_suggestion ts pt i rq ttl cnt auth tg upl st)) = qr_sessions st"
  by (simp add: update_health_suggestion_def save_upload_def Let_def remove_image_sessions
      split: option.splits)

lemma delete_sessions:
  "qr_sessions (snd (delete_health_suggestion i rq st)) = qr_sessions st"
  by (simp add: delete_health_suggestion_def Let_def remove_image_sessions
      split: option.splits)

lemma upload_sessions: "qr_sessions (snd (upload_image ts upl st)) = qr_sessions st"
  by (simp add: upload_image_def upload_body_def save_upload_def Let_def
      split: option.splits)

lemma reachable_inv: "reachable st \<Longrightarrow> session_inv st"
proof (induction rule: reachable.induct)
  case (start st)
  then show ?case by (simp add: session_inv_def)
next
  case (list_all st)
  then show ?case by (simp add: get_health_suggestions_def)
next
  case (get_one st i)
  then show ?case by (simp add: get_health_suggestion_def split: option.splits)
next
  case (search st kw)
  then show ?case by (simp add: search_health_suggestions_def)
qed (auto intro: inv_generate inv_page inv_check inv_status inv_bind inv_confirm
      session_inv_same [OF create_sessions] session_inv_same [OF update_sessions]
      session_inv_same [OF delete_sessions] session_inv_same [OF upload_sessions])

lemma reachable_pending: "reachable pending_state"
  unfolding pending_state_def
  by (rule reachable.generate, rule reachable.start) (simp add: fresh_state_def)

text \<open>
  C10. In every state the process can reach, a session whose \<open>is_confirmed\<close> is true has
  \<open>is_bound\<close> true, so a bind on it before its deadline answers 400 and changes nothing.
  A confirm on a session that is in the store and not expired succeeds and sets both
  flags, and every bind after it, up to the deadline, answers 400, whether or not bind was
  ever called before.
\<close>

theorem confirmed_sessions_are_bound:
  assumes "reachable st" and "qr_sessions st k = Some s"
  shows "(is_confirmed s = Some True \<longrightarrow>
            is_bound s \<and>
            (\<not> now > expires_at s \<and> req_session_id breq = k \<longrightarrow>
               bind_qr_login now t breq st = (Inl (HTTPException 400 Session_bound), st))) \<and>
         (\<not> now > expires_at s \<and> req_uuid creq = k \<longrightarrow>
            (let st1 = snd (confirm_qr_login now tc lt creq st) in
               fst (confirm_qr_login now tc lt creq st) =
                 Inr (Confirm_success k (req_doctor_id creq)) \<and>
               reachable st1 \<and>
               map_option is_confirmed (qr_sessions st1 k) = Some (Some True) \<and>
               map_option is_bound (qr_sessions st1 k) = Some True \<and>
               (\<forall>now2 t2. \<not> now2 > expires_at s \<and> req_session_id breq = k \<longrightarrow>
                  bind_qr_login now2 t2 breq st1 =
                    (Inl (HTTPException 400 Session_bound), st1))))"
proof (intro conjI impI)
  assume c: "is_confirmed s = Some True"
  from reachable_inv [OF assms(1)] assms(2) c show b: "is_bound s"
    by (simp add: session_inv_def)
  assume "\<not> now > expires_at s \<and> req_session_id breq = k"
  with assms(2) b show "bind_qr_login now t breq st = (Inl (HTTPException 400 Session_bound), st)"
    by (simp add: bind_qr_login_def)
next
  assume a: "\<not> now > expires_at s \<and> req_uuid creq = k"
  have r: "reachable (snd (confirm_qr_login now tc lt creq st))"
    by (rule reachable.confirm [OF assms(1)])
  show "let st1 = snd (confirm_qr_login now tc lt creq st) in
     fst (confirm_qr_login now tc lt creq st) = Inr (Confirm_success k (req_doctor_id creq)) \<and>
     reachable st1 \<and>
     map_option is_confirmed (qr_sessions st1 k) = Some (Some True) \<and>
     map_option is_bound (qr_sessions st1 k) = Some True \<and>
     (\<forall>now2 t2. \<not> now2 > expires_at s \<and> req_session_id breq = k \<longrightarrow>
        bind_qr_login now2 t2 breq st1 = (Inl (HTTPException 400 Session_bound), st1))"
    unfolding Let_def
  proof (intro conjI allI impI)
    show "reachable (snd (confirm_qr_login now tc lt creq st))" by (rule r)
  qed (use a assms(2) in \<open>simp_all add: confirm_qr_login_def put_session_def bind_qr_login_def Let_def\<close>)
qed

theorem confirmed_sessions_are_bound_witness:
  "reachable pending_state \<and> qr_sessions pending_state ''s1'' = Some pending_session \<and>
   \<not> 10 > expires_at pending_session \<and>
   fst (confirm_qr_login 10 11 ''T12'' dr_a pending_state) =
     Inr (Confirm_success ''s1'' ''dr-a'') \<and>
   map_option is_bound (qr_sessions (snd (confirm_qr_login 10 11 ''T12'' dr_a pending_state))
     ''s1'') = Some True \<and>
   fst (bind_qr_login 20 21 alice (snd (confirm_qr_login 10 11 ''T12'' dr_a pending_state))) =
     Inl (HTTPException 400 Session_bound)"
  using confirmed_sessions_are_bound [OF reachable_pending pending_lookup,
      of 10 alice 20 dr_a 11 "''T12''"] reachable_pending pending_lookup
  by (simp add: dr_a_def alice_def pending_session_def Let_def)

section \<open>Uploads\<close>

text \<open>
  C7. The claim: a file that is not a picture is refused with 400 and one above 10MB with
  413. The body of \<open>upload_image\<close> raises exactly these, but inside the \<open>try\<close> whose
  \<open>except Exception\<close> turns whatever was raised into a 500, so the caller sees 500 both
  times; \<open>create_health_suggestion\<close> raises an \<open>HTTPException\<close> again before that clause.
\<close>

theorem upload_rejections_become_500:
  "fst (upload_image ''20250101_120000''
         \<lparr>content_type = Some ''text/plain'', file_size = Some 5,
          filename = Some ''a.txt'', file_data = ''hello''\<rparr> fresh_state) =
     Inl (HTTPException 500 (Upload_failed (HTTPException 400 Not_an_image))) \<and>
   fst (upload_image ''20250101_120000''
         \<lparr>content_type = Some ''image/png'', file_size = Some (11 * 1024 * 1024),
          filename = Some ''a.png'', file_data = ''hello''\<rparr> fresh_state) =
     Inl (HTTPException 500 (Upload_failed (HTTPException 413 Image_too_large)))"
  by (simp add: upload_image_def upload_body_def startswith_def)

theorem upload_rejections_become_500_witness:
  "status_code (HTTPException 500 (Upload_failed (HTTPException 400 Not_an_image))) = 500 \<and>
   fst (upload_image ''20250101_120000''
         \<lparr>content_type = Some ''text/plain'', file_size = Some 5,
          filename = Some ''a.txt'', file_data = ''hello''\<rparr> fresh_state) \<noteq>
     Inl (HTTPException 400 Not_an_image)"
  using upload_rejections_become_500 by simp

section \<open>Suggestions\<close>

lemma row_ids: "sugg_id row_tea = 1" "sugg_id row_nap = 2" "sugg_id row_run = 3"
  by (simp_all add: row_tea_def row_nap_def row_run_def)

lemma advice_table: "health_suggestions advice_state = [row_tea, row_nap, row_run]"
  by (simp add: advice_state_def advice_rows_def)

lemma resolved_nonempty: "get_user_from_request rq st = Some info \<Longrightarrow> info \<noteq> []"
  by (auto simp: get_user_from_request_def get_user_from_session_def
      split: option.splits if_splits)

lemma alice_resolved:
  "get_user_from_request alice_request advice_state =
     Some [(''user_id'', ''alice''), (''user_name'', ''Alice''), (''user_token'', ''tok-a'')]"
  by (simp add: alice_request_def advice_state_def fixture_defs bind_qr_login_def
      get_user_from_request_def get_user_from_session_def Let_def)

lemma map_keep:
  "(\<And>r. f (g r) = f r) \<Longrightarrow> map f (map (\<lambda>r. if P r then g r else r) rows) = map f rows"
  by (induction rows) auto

lemma remove_image_table: "health_suggestions (remove_image u st) = health_suggestions st"
  by (simp add: remove_image_def Let_def split: option.splits)

lemma update_keeps_owners:
  "map (\<lambda>r. (sugg_id r, user_id r))
     (health_suggestions (snd (update_health_suggestion ts pt i rq ttl cnt auth tg upl st))) =
   map (\<lambda>r. (sugg_id r, user_id r)) (health_suggestions st)"
  by (simp add: update_health_suggestion_def save_upload_def Let_def remove_image_table
      map_keep split: option.splits)

text \<open>
  C4. An update never changes which identifier belongs to which owner: the pairs of
  \<open>id\<close> and \<open>user_id\<close> of the table are the same after any update, whatever it answers.
  And when the caller's identity has a \<open>user_id\<close> other than the \<open>user_id\<close> of the row,
  update and delete answer 403 and leave the whole state as it was.
\<close>

theorem owner_fixed_and_enforced:
  "map (\<lambda>r. (sugg_id r, user_id r))
     (health_suggestions (snd (update_health_suggestion ts pt i rq ttl cnt auth tg upl st))) =
   map (\<lambda>r. (sugg_id r, user_id r)) (health_suggestions st) \<and>
   (get_user_from_request rq st = Some info \<and> map_of info ''user_id'' = Some uid \<and>
    select_by_id i st = Some row \<and> user_id row \<noteq> Some uid \<longrightarrow>
      update_health_suggestion ts pt i rq ttl cnt auth tg upl st =
        (Inl (HTTPException 403 Not_owner_edit), st) \<and>
      delete_health_suggestion i rq st = (Inl (HTTPException 403 Not_owner_delete), st))"
proof (intro conjI impI)
  show "map (\<lambda>r. (sugg_id r, user_id r))
     (health_suggestions (snd (update_health_suggestion ts pt i rq ttl cnt auth tg upl st))) =
   map (\<lambda>r. (sugg_id r, user_id r)) (health_suggestions st)"
    by (rule update_keeps_owners)
next
  assume a: "get_user_from_request rq st = Some info \<and> map_of info ''user_id'' = Some uid \<and>
    select_by_id i st = Some row \<and> user_id row \<noteq> Some uid"
  then have ne: "info \<noteq> []" by (auto dest: resolved_nonempty)
  from a have neq: "Some uid \<noteq> user_id row" by auto
  show "update_health_suggestion ts pt i rq ttl cnt auth tg upl st =
        (Inl (HTTPException 403 Not_owner_edit), st)"
    using a ne neq by (simp add: update_health_suggestion_def)
  show "delete_health_suggestion i rq st = (Inl (HTTPException 403 Not_owner_delete), st)"
    using a ne neq by (simp add: delete_health_suggestion_def)
qed

lemma select_nap: "select_by_id 2 advice_state = Some row_nap"
  by (simp add: select_by_id_def advice_table row_ids)

theorem owner_fixed_and_enforced_witness:
  "get_user_from_request alice_request advice_state =
     Some [(''user_id'', ''alice''), (''user_name'', ''Alice''), (''user_token'', ''tok-a'')] \<and>
   select_by_id 2 advice_state = Some row_nap \<and> user_id row_nap = Some ''bob'' \<and>
   update_health_suggestion ''20250104_100000'' ''2025-01-04 10:00:00'' 2 alice_request
     ''Mine'' ''Now'' ''Alice'' None None advice_state =
     (Inl (HTTPException 403 Not_owner_edit), advice_state) \<and>
   delete_health_suggestion 2 alice_request advice_state =
     (Inl (HTTPException 403 Not_owner_delete), advice_state)"
  using owner_fixed_and_enforced [of "''20250104_100000''" "''2025-01-04 10:00:00''" 2
      alice_request "''Mine''" "''Now''" "''Alice''" None None advice_state
      "[(''user_id'', ''alice''), (''user_name'', ''Alice''), (''user_token'', ''tok-a'')]"
      "''alice''" row_nap]
    alice_resolved select_nap
  by (simp add: row_nap_def)

lemma dropWhile_all: "(\<forall>x\<in>set (dropWhile P xs). P x) \<longleftrightarrow> (\<forall>x\<in>set xs. P x)"
  by (induction xs) auto

lemma strip_empty_iff: "strip s = [] \<longleftrightarrow> (\<forall>c\<in>set s. isspace c)"
  by (simp add: strip_def dropWhile_eq_Nil_conv dropWhile_all)

lemma blank_iff: "(s = [] \<or> strip s = []) \<longleftrightarrow> (\<forall>c\<in>set s. isspace c)"
  by (auto simp: strip_empty_iff)

text \<open>
  C6. With an identity resolved from the request, a title, content or author that is
  empty or made of white space only makes create answer 400, with the detail of the first
  such field, and leaves the whole state, table and files, as it was.
\<close>

theorem blank_field_rejected:
  assumes "get_user_from_request rq st = Some info"
    and "(\<forall>c\<in>set ttl. isspace c) \<or> (\<forall>c\<in>set cnt. isspace c) \<or> (\<forall>c\<in>set auth. isspace c)"
  shows "snd (create_health_suggestion ts pt rq ttl cnt auth tg upl st) = st \<and>
         fst (create_health_suggestion ts pt rq ttl cnt auth tg upl st) \<in>
           {Inl (HTTPException 400 Title_blank), Inl (HTTPException 400 Content_blank),
            Inl (HTTPException 400 Author_blank)}"
proof -
  have ne: "info \<noteq> []" by (rule resolved_nonempty [OF assms(1)])
  consider (t) "ttl = [] \<or> strip ttl = []"
    | (c) "\<not> (ttl = [] \<or> strip ttl = [])" "cnt = [] \<or> strip cnt = []"
    | (a) "\<not> (ttl = [] \<or> strip ttl = [])" "\<not> (cnt = [] \<or> strip cnt = [])"
        "auth = [] \<or> strip auth = []"
    using assms(2) unfolding blank_iff by blast
  then show ?thesis
  proof cases
    case t
    then have "create_body ts pt rq ttl cnt auth tg upl st =
        (Inl (HTTPException 400 Title_blank), st)"
      using assms(1) ne by (simp add: create_body_def)
    then show ?thesis by (simp add: create_health_suggestion_def)
  next
    case c
    then have "create_body ts pt rq ttl cnt auth tg upl st =
        (Inl (HTTPException 400 Content_blank), st)"
      using assms(1) ne by (simp add: create_body_def)
    then show ?thesis by (simp add: create_health_suggestion_def)
  next
    case a
    then have "create_body ts pt rq ttl cnt auth tg upl st =
        (Inl (HTTPException 400 Author_blank), st)"
      using assms(1) ne by (simp add: create_body_def)
    then show ?thesis by (simp add: create_health_suggestion_def)
  qed
qed

theorem blank_field_rejected_witness:
  "get_user_from_request alice_request advice_state \<noteq> None \<and>
   create_health_suggestion ''20250104_100000'' ''2025-01-04 10:00:00'' alice_request
     ''Yoga'' [CHR '' '', CHR 0x09] ''Dr Wu'' None None advice_state =
   (Inl (HTTPException 400 Content_blank), advice_state)"
proof -
  have sp: "(\<forall>c\<in>set ''Yoga''. isspace c) \<or> (\<forall>c\<in>set [CHR '' '', CHR 0x09]. isspace c) \<or>
      (\<forall>c\<in>set ''Dr Wu''. isspace c)"
    by (simp add: isspace_def)
  have ev: "create_health_suggestion ''20250104_100000'' ''2025-01-04 10:00:00''
      alice_request ''Yoga'' [CHR '' '', CHR 0x09] ''Dr Wu'' None None advice_state =
      (Inl (HTTPException 400 Content_blank), advice_state)"
    by (simp add: create_health_suggestion_def create_body_def alice_resolved strip_def
        isspace_def)
  from blank_field_rejected [OF alice_resolved sp, of "''20250104_100000''"
      "''2025-01-04 10:00:00''" None None] ev
  show ?thesis
    by (simp add: alice_resolved)
qed

subsection \<open>Search\<close>
















end
